theory Spec2Isabelle
  imports Main
begin

section \<open>The page-object layer of robottelo: Environment\<close>

text \<open>
  The development follows \<^verbatim>\<open>robottelo/ui/environment.py\<close>. The class
  \<^verbatim>\<open>Environment\<close> derives from \<^verbatim>\<open>Base\<close> and is written entirely in terms of
  calls into \<^verbatim>\<open>Base\<close>, \<^verbatim>\<open>Navigator\<close> and the web elements these return. None of
  those is part of the sources at hand, so the browser side is a parameter: a function
  that answers every call, given everything that happened before. The methods of
  \<^verbatim>\<open>Environment\<close> are then ordinary functions over the history of calls.
\<close>

subsection \<open>Locators, elements and calls\<close>

text \<open>
  \<^verbatim>\<open>locators\<close>, \<^verbatim>\<open>common_locators\<close> and \<^verbatim>\<open>tab_locators\<close> are three dictionaries from
  symbolic names to selectors, and \<^verbatim>\<open>FILTER\<close> is a dictionary of constants. An entry is
  identified by its dictionary and its key.
\<close>

datatype locator =
    Locators string
  | Common_locators string
  | Tab_locators string

datatype filter_key = FILTER string

text \<open>A web element handed out by the browser driver; the number is its identity.\<close>

datatype element = Element nat

text \<open>A keyword argument that a call site may leave out.\<close>

datatype 'a kwarg = Omitted | Given 'a

text \<open>
  The calls that leave \<^verbatim>\<open>Environment\<close>, with their arguments in the order of the
  source. \<^verbatim>\<open>Configure_entity\<close> carries \<^verbatim>\<open>entity_list\<close>, \<^verbatim>\<open>filter_key\<close> and the
  keyword arguments \<^verbatim>\<open>tab_locator\<close>, \<^verbatim>\<open>new_entity_list\<close>, \<^verbatim>\<open>entity_select\<close>;
  \<^verbatim>\<open>Delete_entity\<close> carries \<^verbatim>\<open>name\<close>, \<^verbatim>\<open>really\<close>, the name locator, the delete
  locator and \<^verbatim>\<open>drop_locator\<close>. \<^verbatim>\<open>Send_keys\<close> and \<^verbatim>\<open>Element_click\<close> are the
  methods of a web element. \<^verbatim>\<open>Login\<close> and \<^verbatim>\<open>Logout\<close> belong to the session.
\<close>

datatype call =
    Click locator
  | Wait_until_element locator
  | Find_element locator
  | Send_keys element string
  | Element_click element
  | Field_update string string
  | Configure_entity "string list option" filter_key "locator kwarg"
      "string list option kwarg" "bool kwarg"
  | Search_entity string locator
  | Delete_entity string bool locator locator "locator kwarg"
  | Go_to_environments
  | Login
  | Logout

text \<open>
  Exceptions. \<^verbatim>\<open>AttributeError\<close> is what Python raises for a method call on
  \<^verbatim>\<open>None\<close>; \<^verbatim>\<open>Raised_below\<close> stands for any exception that comes out of a call
  into the browser side, named by its class.
\<close>

datatype error = AttributeError | Raised_below string

text \<open>
  A call either raises or returns. The only return values the source looks at are
  elements and \<^verbatim>\<open>None\<close>, so a return value is an optional element.
\<close>

datatype response = Raised error | Returned "element option"

type_synonym history = "(call \<times> response) list"

type_synonym browser = "history \<Rightarrow> call \<Rightarrow> response"

subsection \<open>Sequencing with exceptions\<close>

text \<open>
  A method takes the history and gives back its outcome with the extended history. The
  history is kept when an exception leaves the method: what was clicked stays clicked.
\<close>

type_synonym 'a ui = "history \<Rightarrow> (error + 'a) \<times> history"

definition ret :: "'a \<Rightarrow> 'a ui" where
  "ret x = (\<lambda>h. (Inr x, h))"

definition raise_exc :: "error \<Rightarrow> 'a ui" where
  "raise_exc e = (\<lambda>h. (Inl e, h))"

definition and_then :: "'a ui \<Rightarrow> ('a \<Rightarrow> 'b ui) \<Rightarrow> 'b ui" where
  "and_then m f = (\<lambda>h. case m h of
       (Inl e, h') \<Rightarrow> (Inl e, h')
     | (Inr x, h') \<Rightarrow> f x h')"

definition perform :: "browser \<Rightarrow> call \<Rightarrow> element option ui" where
  "perform b c = (\<lambda>h. case b h c of
       Raised e \<Rightarrow> (Inl e, h @ [(c, Raised e)])
     | Returned v \<Rightarrow> (Inr v, h @ [(c, Returned v)]))"

text \<open>The calls a method has added to the history it started from.\<close>

definition calls_since :: "history \<Rightarrow> history \<Rightarrow> call list" where
  "calls_since h h' = map fst (drop (length h) h')"

subsection \<open>Truth values of Python\<close>

text \<open>
  \<^verbatim>\<open>if orgs:\<close> and \<^verbatim>\<open>... and new_name:\<close> test truthiness: \<^verbatim>\<open>None\<close>, the empty list and
  the empty string count as false. A web element counts as true.
\<close>

fun truthy :: "'a list option \<Rightarrow> bool" where
  "truthy None = False"
| "truthy (Some []) = False"
| "truthy (Some (x # xs)) = True"

subsection \<open>Environment\<close>

text \<open>
  \<^verbatim>\<open>
  def search(self, name):
      Navigator(self.browser).go_to_environments()
      if len(name) <= 30:
          element = self.search_entity(name, locators['env.env_name'])
      else:
          element = self.search_entity(
              name, common_locators['select_filtered_entity'])
      return element
  \<close>
  A name is the list of the characters that \<^verbatim>\<open>len\<close> counts.
\<close>

definition search :: "browser \<Rightarrow> string \<Rightarrow> element option ui" where
  "search b name =
     and_then (perform b Go_to_environments) (\<lambda>_.
       if length name \<le> 30
       then perform b (Search_entity name (Locators ''env.env_name''))
       else perform b (Search_entity name (Common_locators ''select_filtered_entity'')))"

text \<open>
  \<^verbatim>\<open>
  def create(self, name, orgs, org_select=True):
      self.click(locators['env.new'])
      if self.wait_until_element(locators['env.name']):
          self.find_element(locators['env.name']).send_keys(name)
      if orgs:
          self.configure_entity(
              orgs, FILTER['env_org'],
              tab_locator=tab_locators['tab_org'],
              entity_select=org_select)
      self.click(common_locators['submit'])
  \<close>
\<close>

definition create :: "browser \<Rightarrow> string \<Rightarrow> string list option \<Rightarrow> bool \<Rightarrow> unit ui" where
  "create b name orgs org_select =
     and_then (perform b (Click (Locators ''env.new''))) (\<lambda>_.
     and_then (perform b (Wait_until_element (Locators ''env.name''))) (\<lambda>w.
     and_then (case w of
                 None \<Rightarrow> ret ()
               | Some _ \<Rightarrow>
                   and_then (perform b (Find_element (Locators ''env.name''))) (\<lambda>f.
                     case f of
                       None \<Rightarrow> raise_exc AttributeError
                     | Some el \<Rightarrow> and_then (perform b (Send_keys el name)) (\<lambda>_. ret ()))) (\<lambda>_.
     and_then (if truthy orgs
               then and_then (perform b (Configure_entity orgs (FILTER ''env_org'')
                                (Given (Tab_locators ''tab_org'')) Omitted (Given org_select)))
                      (\<lambda>_. ret ())
               else ret ()) (\<lambda>_.
     and_then (perform b (Click (Common_locators ''submit''))) (\<lambda>_. ret ())))))"

text \<open>
  \<^verbatim>\<open>
  def update(self, old_name, orgs=None, new_orgs=None, new_name=None,
             org_select=False):
      element = self.search(old_name)
      if element:
          element.click()
          if self.wait_until_element(locators['env.name']) and new_name:
              self.field_update('env.name', new_name)
          self.configure_entity(orgs, FILTER['env_org'],
                                tab_locator=tab_locators['tab_org'],
                                new_entity_list=new_orgs,
                                entity_select=org_select)
          self.click(common_locators['submit'])
  \<close>
  \<^verbatim>\<open>and\<close> evaluates the wait first and looks at \<^verbatim>\<open>new_name\<close> only when the wait gave
  an element.
\<close>

definition update ::
  "browser \<Rightarrow> string \<Rightarrow> string list option \<Rightarrow> string list option \<Rightarrow> string option \<Rightarrow> bool
     \<Rightarrow> unit ui" where
  "update b old_name orgs new_orgs new_name org_select =
     and_then (search b old_name) (\<lambda>element.
       case element of
         None \<Rightarrow> ret ()
       | Some el \<Rightarrow>
           and_then (perform b (Element_click el)) (\<lambda>_.
           and_then (perform b (Wait_until_element (Locators ''env.name''))) (\<lambda>w.
           and_then (case w of
                       None \<Rightarrow> ret ()
                     | Some _ \<Rightarrow>
                         (case new_name of
                            None \<Rightarrow> ret ()
                          | Some n \<Rightarrow>
                              if truthy (Some n)
                              then and_then (perform b (Field_update ''env.name'' n)) (\<lambda>_. ret ())
                              else ret ())) (\<lambda>_.
           and_then (perform b (Configure_entity orgs (FILTER ''env_org'')
                       (Given (Tab_locators ''tab_org'')) (Given new_orgs) (Given org_select))) (\<lambda>_.
           and_then (perform b (Click (Common_locators ''submit''))) (\<lambda>_. ret ()))))))"

text \<open>
  \<^verbatim>\<open>
  def delete(self, name, really=True):
      self.delete_entity(
          name, really,
          locators['env.env_name'], locators['env.delete'],
          drop_locator=locators['env.dropdown'])
  \<close>
\<close>

definition delete :: "browser \<Rightarrow> string \<Rightarrow> bool \<Rightarrow> unit ui" where
  "delete b name really =
     and_then (perform b (Delete_entity name really (Locators ''env.env_name'')
                 (Locators ''env.delete'') (Given (Locators ''env.dropdown'')))) (\<lambda>_. ret ())"

subsection \<open>Session\<close>

text \<open>
  The tests run their page-object calls inside
  \<^verbatim>\<open>with Session(self.browser) as session: ...\<close>
  (\<^verbatim>\<open>tests/foreman/ui/test_medium.py\<close>, \<^verbatim>\<open>tests/foreman/ui/test_config_groups.py\<close>).
  The class itself, \<^verbatim>\<open>robottelo/ui/session.py\<close>, is not among the sources.
\<close>

text \<open>
  Modelled from the spec: \<^verbatim>\<open>Session.__enter__\<close> of \<^verbatim>\<open>robottelo/ui/session.py\<close>, which
  is missing. The spec calls the session a scoped login/logout wrapper that establishes
  an authenticated browser context: entering logs in.
\<close>

definition session_enter :: "browser \<Rightarrow> unit ui" where
  "session_enter b = and_then (perform b Login) (\<lambda>_. ret ())"

text \<open>
  Modelled from the spec: \<^verbatim>\<open>Session.__exit__\<close> of \<^verbatim>\<open>robottelo/ui/session.py\<close>, which
  is missing. The spec has it log out on every exit path, normal return or exception,
  so it logs out whatever the outcome of the block was, and it does not swallow the
  exception of the block.
\<close>

definition session_exit :: "browser \<Rightarrow> (error + 'a) \<Rightarrow> unit ui" where
  "session_exit b outcome = and_then (perform b Logout) (\<lambda>_. ret ())"

text \<open>
  The \<^verbatim>\<open>with\<close> statement of Python around a block: enter, run the block, and call
  the exit method with the outcome of the block, whether it returned or raised. When
  entering raises, neither the block nor the exit method runs. When the exit method
  raises, that exception leaves the statement; otherwise the outcome of the block does.
\<close>

definition with_Session :: "browser \<Rightarrow> 'a ui \<Rightarrow> 'a ui" where
  "with_Session b block = (\<lambda>h.
     case session_enter b h of
       (Inl e, h1) \<Rightarrow> (Inl e, h1)
     | (Inr _, h1) \<Rightarrow>
         (case block h1 of
            (outcome, h2) \<Rightarrow>
              (case session_exit b outcome h2 of
                 (Inl e, h3) \<Rightarrow> (Inl e, h3)
               | (Inr _, h3) \<Rightarrow> (outcome, h3))))"

text \<open>
  Modelled from the spec: the authenticated browser context of a session, whose login
  page object \<^verbatim>\<open>robottelo/ui/login.py\<close> is missing. The lifecycle is login, active,
  logout: after a history the browser holds an authenticated session when the last login
  or logout that returned was a login.
\<close>

fun after_call :: "bool \<Rightarrow> call \<times> response \<Rightarrow> bool" where
  "after_call a (Login, Returned v) = True"
| "after_call a (Logout, Returned v) = False"
| "after_call a x = a"

definition authenticated :: "history \<Rightarrow> bool" where
  "authenticated h = foldl after_call False h"

subsection \<open>Browsers to run the methods on\<close>

text \<open>A browser where every element is found and nothing raises.\<close>

fun browser_ok :: browser where
  "browser_ok h (Wait_until_element l) = Returned (Some (Element 0))"
| "browser_ok h (Find_element l) = Returned (Some (Element 0))"
| "browser_ok h (Search_entity n l) = Returned (Some (Element 1))"
| "browser_ok h c = Returned None"

text \<open>A browser where the entity is listed but no wait ever finds its element.\<close>

fun browser_no_field :: browser where
  "browser_no_field h (Wait_until_element l) = Returned None"
| "browser_no_field h (Search_entity n l) = Returned (Some (Element 1))"
| "browser_no_field h c = Returned None"

text \<open>A browser where no entity is listed.\<close>

fun browser_no_entity :: browser where
  "browser_no_entity h (Wait_until_element l) = Returned (Some (Element 0))"
| "browser_no_entity h (Find_element l) = Returned (Some (Element 0))"
| "browser_no_entity h c = Returned None"

text \<open>A browser where clicking a locator raises and everything else is as in \<open>browser_ok\<close>.\<close>

fun browser_click_raises :: browser where
  "browser_click_raises h (Click l) = Raised (Raised_below ''UINoSuchElementError'')"
| "browser_click_raises h c = browser_ok h c"

text \<open>
  A browser as \<open>browser_no_field\<close>, except that \<^verbatim>\<open>configure_entity\<close> raises.
\<close>

fun browser_configure_raises :: browser where
  "browser_configure_raises h (Configure_entity e f t n s) =
     Raised (Raised_below ''UINoSuchElementError'')"
| "browser_configure_raises h c = browser_no_field h c"

section \<open>Properties\<close>

subsection \<open>Running one call after another\<close>

lemma and_then_perform:
  "and_then (perform b c) f h =
     (case b h c of
        Raised e \<Rightarrow> (Inl e, h @ [(c, Raised e)])
      | Returned v \<Rightarrow> f v (h @ [(c, Returned v)]))"
  by (simp add: and_then_def perform_def split: response.splits)

lemma and_then_assoc: "and_then (and_then m f) g = and_then m (\<lambda>x. and_then (f x) g)"
  by (auto simp add: and_then_def fun_eq_iff split: prod.splits sum.splits)

lemma and_then_ret_left: "and_then (ret x) f = f x"
  by (simp add: and_then_def ret_def fun_eq_iff)

lemma and_then_raise_left: "and_then (raise_exc e) f = raise_exc e"
  by (simp add: and_then_def raise_exc_def fun_eq_iff)

lemma ret_apply: "ret x h = (Inr x, h)"
  by (simp add: ret_def)

lemma raise_exc_apply: "raise_exc e h = (Inl e, h)"
  by (simp add: raise_exc_def)

lemmas run_simps = and_then_assoc and_then_ret_left and_then_raise_left and_then_perform
  ret_apply raise_exc_apply

lemma and_then_returned: "m h = (Inr x, h') \<Longrightarrow> and_then m f h = f x h'"
  by (simp add: and_then_def)

text \<open>Once the search has found the entity, \<open>update\<close> is the body of \<^verbatim>\<open>if element:\<close>.\<close>

lemma update_located:
  assumes "search b old_name h = (Inr (Some el), h1)"
  shows "update b old_name orgs new_orgs new_name org_select h =
     and_then (perform b (Element_click el)) (\<lambda>_.
     and_then (perform b (Wait_until_element (Locators ''env.name''))) (\<lambda>w.
     and_then (case w of
                 None \<Rightarrow> ret ()
               | Some _ \<Rightarrow>
                   (case new_name of
                      None \<Rightarrow> ret ()
                    | Some n \<Rightarrow>
                        if truthy (Some n)
                        then and_then (perform b (Field_update ''env.name'' n)) (\<lambda>_. ret ())
                        else ret ())) (\<lambda>_.
     and_then (perform b (Configure_entity orgs (FILTER ''env_org'')
                 (Given (Tab_locators ''tab_org'')) (Given new_orgs) (Given org_select))) (\<lambda>_.
     and_then (perform b (Click (Common_locators ''submit''))) (\<lambda>_. ret ()))))) h1"
  unfolding update_def using assms by (simp add: and_then_returned)

lemma search_unfold:
  "search b name h =
    (case b h Go_to_environments of
       Raised e \<Rightarrow> (Inl e, h @ [(Go_to_environments, Raised e)])
     | Returned v \<Rightarrow>
         perform b (Search_entity name
            (if length name \<le> 30 then Locators ''env.env_name''
             else Common_locators ''select_filtered_entity''))
           (h @ [(Go_to_environments, Returned v)]))"
  by (simp add: search_def and_then_perform split: response.splits)

text \<open>Two runs that several statements below refer to.\<close>

lemma search_browser_ok:
  "search browser_ok ''old'' [] =
     (Inr (Some (Element 1)),
      [(Go_to_environments, Returned None),
       (Search_entity ''old'' (Locators ''env.env_name''), Returned (Some (Element 1)))])"
  by (simp add: search_unfold perform_def)

lemma search_browser_no_field:
  "search browser_no_field ''old'' [] =
     (Inr (Some (Element 1)),
      [(Go_to_environments, Returned None),
       (Search_entity ''old'' (Locators ''env.env_name''), Returned (Some (Element 1)))])"
  by (simp add: search_unfold perform_def)

subsection \<open>Searching\<close>

text \<open>
  C1. Once the navigation has returned, \<open>search\<close> makes exactly one more call: a
  \<^verbatim>\<open>search_entity\<close> for the name, with the exact-name locator
  \<^verbatim>\<open>locators['env.env_name']\<close> when the name has at most 30 characters and with the
  filtered-search locator \<^verbatim>\<open>common_locators['select_filtered_entity']\<close> when it has
  more. A name of exactly 30 characters is on the exact-name side.
\<close>

theorem search_dispatch:
  assumes "b h Go_to_environments = Returned v"
  shows "calls_since h (snd (search b name h)) =
           [Go_to_environments,
            Search_entity name
              (if length name \<le> 30 then Locators ''env.env_name''
               else Common_locators ''select_filtered_entity'')]"
  using assms
  by (simp add: search_unfold perform_def calls_since_def split: response.splits)

text \<open>The two sides of the threshold: a name of 30 characters and one of 31.\<close>

theorem search_dispatch_witness:
  "calls_since [] (snd (search browser_ok ''abcdefghijklmnopqrstuvwxyz0123'' [])) =
     [Go_to_environments,
      Search_entity ''abcdefghijklmnopqrstuvwxyz0123'' (Locators ''env.env_name'')]
   \<and> calls_since [] (snd (search browser_ok ''abcdefghijklmnopqrstuvwxyz01234'' [])) =
     [Go_to_environments,
      Search_entity ''abcdefghijklmnopqrstuvwxyz01234''
        (Common_locators ''select_filtered_entity'')]"
  using search_dispatch [of browser_ok "[]" None "''abcdefghijklmnopqrstuvwxyz0123''"]
    search_dispatch [of browser_ok "[]" None "''abcdefghijklmnopqrstuvwxyz01234''"]
  by simp

text \<open>
  C4. The first call of \<open>search\<close> is the navigation to the environments page, whatever
  the name and the browser. When the navigation has returned and \<^verbatim>\<open>search_entity\<close>
  returns \<open>r\<close>, an element or the absence signal \<^verbatim>\<open>None\<close>, then \<open>search\<close> returns
  that same \<open>r\<close>: an entity that is merely missing gives \<^verbatim>\<open>None\<close> and no exception.
\<close>

theorem search_navigates_first:
  "take 1 (calls_since h (snd (search b name h))) = [Go_to_environments]
   \<and> (b h Go_to_environments = Returned v \<longrightarrow>
        b (h @ [(Go_to_environments, Returned v)])
          (Search_entity name
            (if length name \<le> 30 then Locators ''env.env_name''
             else Common_locators ''select_filtered_entity'')) = Returned r \<longrightarrow>
        fst (search b name h) = Inr r)"
  by (simp add: search_unfold perform_def calls_since_def split: response.splits)

text \<open>An environment that is not listed: the search navigates and returns \<^verbatim>\<open>None\<close>.\<close>

theorem search_navigates_first_witness:
  "take 1 (calls_since [] (snd (search browser_no_entity ''abc'' []))) = [Go_to_environments]
   \<and> fst (search browser_no_entity ''abc'' []) = Inr None"
  using search_navigates_first [of "[]" browser_no_entity "''abc''" None None]
  by simp

subsection \<open>Updating\<close>

text \<open>
  C5. When \<open>search\<close> does not find \<open>old_name\<close> (it returns \<^verbatim>\<open>None\<close>), \<open>update\<close>
  returns normally and leaves the history exactly as the search left it: no click, no
  field edit, no association change, no submit. The search itself made two calls, the
  navigation and the \<^verbatim>\<open>search_entity\<close>.
\<close>

theorem update_not_located:
  assumes "search b old_name h = (Inr None, h1)"
  shows "update b old_name orgs new_orgs new_name org_select h = (Inr (), h1)
         \<and> calls_since h h1 =
             [Go_to_environments,
              Search_entity old_name
                (if length old_name \<le> 30 then Locators ''env.env_name''
                 else Common_locators ''select_filtered_entity'')]"
proof -
  from assms have "update b old_name orgs new_orgs new_name org_select h = (Inr (), h1)"
    by (simp add: update_def and_then_def ret_def)
  moreover from assms have "calls_since h h1 =
             [Go_to_environments,
              Search_entity old_name
                (if length old_name \<le> 30 then Locators ''env.env_name''
                 else Common_locators ''select_filtered_entity'')]"
    by (auto simp add: search_unfold perform_def calls_since_def split: response.splits)
  ultimately show ?thesis by simp
qed

theorem update_not_located_witness:
  "search browser_no_entity ''old'' [] =
     (Inr None, [(Go_to_environments, Returned None),
                 (Search_entity ''old'' (Locators ''env.env_name''), Returned None)])
   \<and> update browser_no_entity ''old'' (Some [''org'']) None (Some ''new'') False [] =
     (Inr (), [(Go_to_environments, Returned None),
               (Search_entity ''old'' (Locators ''env.env_name''), Returned None)])"
proof -
  have s: "search browser_no_entity ''old'' [] =
     (Inr None, [(Go_to_environments, Returned None),
                 (Search_entity ''old'' (Locators ''env.env_name''), Returned None)])"
    by (simp add: search_unfold perform_def)
  from update_not_located [OF s, of "Some [''org'']" None "Some ''new''" False] s
  show ?thesis by simp
qed

text \<open>
  C10. Let \<open>search\<close> have found the entity. A \<^verbatim>\<open>field_update\<close> among the calls of
  \<open>update\<close> is on \<^verbatim>\<open>'env.name'\<close>, with the new name that was passed, and comes only
  after a wait that found the name field. With \<^verbatim>\<open>new_name=None\<close> there is no
  \<^verbatim>\<open>field_update\<close> at all. Whatever \<open>new_name\<close> is and whether or not the field was
  found, an update that returns has called \<^verbatim>\<open>configure_entity\<close> with the given
  organizations and has ended with the click on submit.
\<close>

theorem update_rename_guard:
  assumes "search b old_name h = (Inr (Some el), h1)"
    and "update b old_name orgs new_orgs new_name org_select h = (res, hist)"
  shows "(\<forall>k n r. (Field_update k n, r) \<in> set (drop (length h1) hist) \<longrightarrow>
          k = ''env.name'' \<and> new_name = Some n \<and>
          (\<exists>f. (Wait_until_element (Locators ''env.name''), Returned (Some f))
            \<in> set (drop (length h1) hist)))
       \<and> (new_name = None \<longrightarrow>
            (\<forall>k n r. (Field_update k n, r) \<notin> set (drop (length h1) hist)))
       \<and> (res = Inr () \<longrightarrow>
            (\<exists>r. (Configure_entity orgs (FILTER ''env_org'') (Given (Tab_locators ''tab_org''))
                    (Given new_orgs) (Given org_select), Returned r)
              \<in> set (drop (length h1) hist))
          \<and> (\<exists>r. last hist = (Click (Common_locators ''submit''), Returned r)))"
  using assms(2) unfolding update_located [OF assms(1)]
  by (auto simp add: run_simps split: response.splits option.splits if_splits)

text \<open>
  A rename on a form that shows the name field, and the same update without a new name.
\<close>

theorem update_rename_guard_witness:
  "(Field_update ''env.name'' ''new'', Returned None)
     \<in> set (drop 2 (snd (update browser_ok ''old'' None None (Some ''new'') False [])))
   \<and> (Wait_until_element (Locators ''env.name''), Returned (Some (Element 0)))
     \<in> set (drop 2 (snd (update browser_ok ''old'' None None (Some ''new'') False [])))
   \<and> fst (update browser_ok ''old'' None None (Some ''new'') False []) = Inr ()
   \<and> last (snd (update browser_ok ''old'' None None (Some ''new'') False [])) =
       (Click (Common_locators ''submit''), Returned None)
   \<and> fst (update browser_ok ''old'' None None None False []) = Inr ()
   \<and> (Field_update ''env.name'' ''new'', Returned None)
     \<notin> set (drop 2 (snd (update browser_ok ''old'' None None None False [])))
   \<and> (Configure_entity None (FILTER ''env_org'') (Given (Tab_locators ''tab_org''))
        (Given None) (Given False), Returned None)
     \<in> set (drop 2 (snd (update browser_ok ''old'' None None None False [])))"
proof -
  have u1: "update browser_ok ''old'' None None (Some ''new'') False [] =
      (Inr (),
       [(Go_to_environments, Returned None),
        (Search_entity ''old'' (Locators ''env.env_name''), Returned (Some (Element 1))),
        (Element_click (Element 1), Returned None),
        (Wait_until_element (Locators ''env.name''), Returned (Some (Element 0))),
        (Field_update ''env.name'' ''new'', Returned None),
        (Configure_entity None (FILTER ''env_org'') (Given (Tab_locators ''tab_org''))
           (Given None) (Given False), Returned None),
        (Click (Common_locators ''submit''), Returned None)])"
    by (simp add: update_located [OF search_browser_ok] run_simps)
  have u2: "update browser_ok ''old'' None None None False [] =
      (Inr (),
       [(Go_to_environments, Returned None),
        (Search_entity ''old'' (Locators ''env.env_name''), Returned (Some (Element 1))),
        (Element_click (Element 1), Returned None),
        (Wait_until_element (Locators ''env.name''), Returned (Some (Element 0))),
        (Configure_entity None (FILTER ''env_org'') (Given (Tab_locators ''tab_org''))
           (Given None) (Given False), Returned None),
        (Click (Common_locators ''submit''), Returned None)])"
    by (simp add: update_located [OF search_browser_ok] run_simps)
  from update_rename_guard [OF search_browser_ok u1] update_rename_guard [OF search_browser_ok u2]
  show ?thesis by (simp add: u1 u2)
qed

text \<open>
  C3, as the code has it. Let \<open>search\<close> have found the entity and let \<open>update\<close> return
  normally. Then the calls of \<open>update\<close> after the search are, in this order: the click on
  the found element; the wait for the name field; a \<^verbatim>\<open>field_update\<close> of
  \<^verbatim>\<open>'env.name'\<close> exactly when a non-empty new name was passed and the wait found the
  field; \<^verbatim>\<open>configure_entity\<close> with the organizations; the click on submit. The click
  on submit occurs once. The history of the search is kept as it was.
\<close>

theorem update_sequence:
  assumes "search b old_name h = (Inr (Some el), h1)"
    and "update b old_name orgs new_orgs new_name org_select h = (Inr (), hist)"
  shows "take (length h1) hist = h1
       \<and> calls_since h1 hist =
               [Element_click el, Wait_until_element (Locators ''env.name'')]
               @ (case new_name of
                    None \<Rightarrow> []
                  | Some n \<Rightarrow>
                      if (\<exists>f. (Wait_until_element (Locators ''env.name''), Returned (Some f))
                                \<in> set (drop (length h1) hist)) \<and> n \<noteq> []
                      then [Field_update ''env.name'' n] else [])
               @ [Configure_entity orgs (FILTER ''env_org'') (Given (Tab_locators ''tab_org''))
                    (Given new_orgs) (Given org_select),
                  Click (Common_locators ''submit'')]
       \<and> count_list (calls_since h1 hist) (Click (Common_locators ''submit'')) = 1"
  using assms(2) unfolding update_located [OF assms(1)]
  by (cases new_name rule: truthy.cases)
     (auto simp add: run_simps calls_since_def split: response.splits option.splits if_splits)

theorem update_sequence_witness:
  "calls_since
     [(Go_to_environments, Returned None),
      (Search_entity ''old'' (Locators ''env.env_name''), Returned (Some (Element 1)))]
     (snd (update browser_ok ''old'' (Some [''org1'']) (Some [''org2'']) (Some ''new'') True [])) =
     [Element_click (Element 1),
      Wait_until_element (Locators ''env.name''),
      Field_update ''env.name'' ''new'',
      Configure_entity (Some [''org1'']) (FILTER ''env_org'') (Given (Tab_locators ''tab_org''))
        (Given (Some [''org2''])) (Given True),
      Click (Common_locators ''submit'')]
   \<and> fst (update browser_ok ''old'' (Some [''org1'']) (Some [''org2'']) (Some ''new'') True [])
       = Inr ()"
proof -
  have u: "update browser_ok ''old'' (Some [''org1'']) (Some [''org2'']) (Some ''new'') True [] =
      (Inr (),
       [(Go_to_environments, Returned None),
        (Search_entity ''old'' (Locators ''env.env_name''), Returned (Some (Element 1))),
        (Element_click (Element 1), Returned None),
        (Wait_until_element (Locators ''env.name''), Returned (Some (Element 0))),
        (Field_update ''env.name'' ''new'', Returned None),
        (Configure_entity (Some [''org1'']) (FILTER ''env_org'') (Given (Tab_locators ''tab_org''))
           (Given (Some [''org2''])) (Given True), Returned None),
        (Click (Common_locators ''submit''), Returned None)])"
    by (simp add: update_located [OF search_browser_ok] run_simps)
  from update_sequence [OF search_browser_ok u] show ?thesis
    by (simp add: u)
qed

text \<open>
  Without the condition on the wait the statement fails. Here the entity is found but
  the wait for the name field comes back empty: a new name is passed, the update returns
  normally, and there is no \<^verbatim>\<open>field_update\<close> between the wait and
  \<^verbatim>\<open>configure_entity\<close>.
\<close>

theorem update_sequence_counterexample:
  "search browser_no_field ''old'' [] =
     (Inr (Some (Element 1)),
      [(Go_to_environments, Returned None),
       (Search_entity ''old'' (Locators ''env.env_name''), Returned (Some (Element 1)))])
   \<and> update browser_no_field ''old'' None None (Some ''new'') False [] =
     (Inr (),
      [(Go_to_environments, Returned None),
       (Search_entity ''old'' (Locators ''env.env_name''), Returned (Some (Element 1))),
       (Element_click (Element 1), Returned None),
       (Wait_until_element (Locators ''env.name''), Returned None),
       (Configure_entity None (FILTER ''env_org'') (Given (Tab_locators ''tab_org''))
          (Given None) (Given False), Returned None),
       (Click (Common_locators ''submit''), Returned None)])"
  by (simp add: search_browser_no_field update_located [OF search_browser_no_field] run_simps)

subsection \<open>Creating\<close>

text \<open>
  C9. With \<open>orgs\<close> empty or \<^verbatim>\<open>None\<close>, \<open>create\<close> never calls \<^verbatim>\<open>configure_entity\<close>.
  When it returns normally, what it did is one of two runs: the click on the
  new-environment control, the wait for the name field, which found nothing, and the
  click on submit; or the click, the wait, which found the field, the typing of the name
  into the field, and the click on submit.
\<close>

theorem create_without_orgs:
  assumes "orgs = None \<or> orgs = Some []"
    and "create b name orgs org_select h = (res, hist)"
  shows "(\<forall>e f t n s r. (Configure_entity e f t n s, r) \<notin> set (drop (length h) hist))
       \<and> (res = Inr () \<longrightarrow>
           (\<exists>r0 r1. drop (length h) hist =
                [(Click (Locators ''env.new''), Returned r0),
                 (Wait_until_element (Locators ''env.name''), Returned None),
                 (Click (Common_locators ''submit''), Returned r1)])
         \<or> (\<exists>r0 f el r2 r1. drop (length h) hist =
                [(Click (Locators ''env.new''), Returned r0),
                 (Wait_until_element (Locators ''env.name''), Returned (Some f)),
                 (Find_element (Locators ''env.name''), Returned (Some el)),
                 (Send_keys el name, Returned r2),
                 (Click (Common_locators ''submit''), Returned r1)]))"
proof -
  from assms(1) have t: "\<not> truthy orgs" by auto
  show ?thesis
    using assms(2) unfolding create_def
    by (auto simp add: t run_simps split: response.splits option.splits if_splits)
qed

theorem create_without_orgs_witness:
  "create browser_ok ''abc'' (Some []) True [] =
     (Inr (),
      [(Click (Locators ''env.new''), Returned None),
       (Wait_until_element (Locators ''env.name''), Returned (Some (Element 0))),
       (Find_element (Locators ''env.name''), Returned (Some (Element 0))),
       (Send_keys (Element 0) ''abc'', Returned None),
       (Click (Common_locators ''submit''), Returned None)])
   \<and> (\<forall>e f t n s r. (Configure_entity e f t n s, r)
         \<notin> set (snd (create browser_ok ''abc'' (Some []) True [])))"
proof -
  have c: "create browser_ok ''abc'' (Some []) True [] =
     (Inr (),
      [(Click (Locators ''env.new''), Returned None),
       (Wait_until_element (Locators ''env.name''), Returned (Some (Element 0))),
       (Find_element (Locators ''env.name''), Returned (Some (Element 0))),
       (Send_keys (Element 0) ''abc'', Returned None),
       (Click (Common_locators ''submit''), Returned None)])"
    by (simp add: create_def run_simps)
  have o: "Some [] = None \<or> Some [] = Some ([] :: string list)" by simp
  from create_without_orgs [OF o c] show ?thesis
    by (simp add: c)
qed

subsection \<open>What becomes of a missing element\<close>

lemma perform_outcomes:
  "(\<exists>x. perform b c h = (Inr (Some x), h @ [(c, Returned (Some x))]))
   \<or> perform b c h = (Inr None, h @ [(c, Returned None)])
   \<or> (\<exists>e. perform b c h = (Inl e, h @ [(c, Raised e)]))"
proof (cases "b h c")
  case (Raised e)
  then show ?thesis by (simp add: perform_def)
next
  case (Returned v)
  then show ?thesis by (cases v) (simp_all add: perform_def)
qed

lemma search_hands_on:
  assumes "search b name h = (res, hist)"
  shows "res = (case snd (last hist) of Raised e \<Rightarrow> Inl e | Returned r \<Rightarrow> Inr r)
       \<and> (\<forall>r. res = Inr r \<longrightarrow>
            fst (last hist) =
              Search_entity name
                (if length name \<le> 30 then Locators ''env.env_name''
                 else Common_locators ''select_filtered_entity''))"
  using assms
  by (auto simp add: search_unfold perform_def split: response.splits if_splits)

lemma delete_hands_on:
  assumes "delete b name really h = (res, hist)"
  shows "hist = h @ [(Delete_entity name really (Locators ''env.env_name'')
                        (Locators ''env.delete'') (Given (Locators ''env.dropdown'')),
                      b h (Delete_entity name really (Locators ''env.env_name'')
                        (Locators ''env.delete'') (Given (Locators ''env.dropdown''))))]
       \<and> res = (case b h (Delete_entity name really (Locators ''env.env_name'')
                            (Locators ''env.delete'') (Given (Locators ''env.dropdown''))) of
                  Raised e \<Rightarrow> Inl e
                | Returned r \<Rightarrow> Inr ())"
  using assms unfolding delete_def
  by (auto simp add: run_simps split: response.splits)

lemma create_goes_on:
  assumes "b h (Click (Locators ''env.new'')) = Returned r0"
    and "b (h @ [(Click (Locators ''env.new''), Returned r0)])
           (Wait_until_element (Locators ''env.name'')) = Returned None"
    and "create b name orgs org_select h = (res, hist)"
  shows "calls_since h hist =
           [Click (Locators ''env.new''), Wait_until_element (Locators ''env.name'')]
           @ (if truthy orgs
              then Configure_entity orgs (FILTER ''env_org'') (Given (Tab_locators ''tab_org''))
                     Omitted (Given org_select)
                   # (case b (h @ [(Click (Locators ''env.new''), Returned r0),
                                   (Wait_until_element (Locators ''env.name''), Returned None)])
                             (Configure_entity orgs (FILTER ''env_org'')
                                (Given (Tab_locators ''tab_org'')) Omitted (Given org_select)) of
                        Raised e \<Rightarrow> []
                      | Returned r \<Rightarrow> [Click (Common_locators ''submit'')])
              else [Click (Common_locators ''submit'')])
       \<and> res = (case snd (last hist) of Raised e \<Rightarrow> Inl e | Returned r \<Rightarrow> Inr ())"
  using assms(3) unfolding create_def
  by (auto simp add: assms(1,2) run_simps calls_since_def split: response.splits if_splits)

lemma update_goes_on:
  assumes "search b old_name h = (Inr (Some el), h1)"
    and "b h1 (Element_click el) = Returned r1"
    and "b (h1 @ [(Element_click el, Returned r1)])
           (Wait_until_element (Locators ''env.name'')) = Returned None"
    and "update b old_name orgs new_orgs new_name org_select h = (res, hist)"
  shows "calls_since h1 hist =
           [Element_click el, Wait_until_element (Locators ''env.name''),
            Configure_entity orgs (FILTER ''env_org'') (Given (Tab_locators ''tab_org''))
              (Given new_orgs) (Given org_select)]
           @ (case b (h1 @ [(Element_click el, Returned r1),
                            (Wait_until_element (Locators ''env.name''), Returned None)])
                     (Configure_entity orgs (FILTER ''env_org'')
                        (Given (Tab_locators ''tab_org'')) (Given new_orgs) (Given org_select)) of
                Raised e \<Rightarrow> []
              | Returned r \<Rightarrow> [Click (Common_locators ''submit'')])
       \<and> res = (case snd (last hist) of Raised e \<Rightarrow> Inl e | Returned r \<Rightarrow> Inr ())"
  using assms(4) unfolding update_located [OF assms(1)]
  by (auto simp add: assms(2,3) run_simps calls_since_def split: response.splits)

text \<open>
  C2, as the code has it. A call into the browser side has three outcomes: it returns
  an element, it returns \<^verbatim>\<open>None\<close>, or it raises. \<open>search\<close> and \<open>delete\<close> hand the
  outcome on: the outcome of \<open>search\<close> is the outcome of its last call, which is the
  \<^verbatim>\<open>search_entity\<close> whenever \<open>search\<close> returns; \<open>delete\<close> makes the one call to
  \<^verbatim>\<open>delete_entity\<close>, returns when it returns and raises what it raises. \<open>create\<close>
  and \<open>update\<close> do not signal a missing name field. Let the click before the wait have
  returned (for \<open>update\<close>, on an entity that \<open>search\<close> found) and let the wait for the
  name field come back with \<^verbatim>\<open>None\<close>. Then \<open>create\<close> types nothing and \<open>update\<close>
  renames nothing; the next call is \<^verbatim>\<open>configure_entity\<close> (in \<open>create\<close> only when
  \<open>orgs\<close> is non-empty), and unless that call raises, the click on submit follows. The
  outcome of either method is the outcome of the last call it made: a normal return when
  that call returned, and its exception when it raised.
\<close>

theorem missing_element_outcomes:
  "((\<exists>x. perform b c h = (Inr (Some x), h @ [(c, Returned (Some x))]))
      \<or> perform b c h = (Inr None, h @ [(c, Returned None)])
      \<or> (\<exists>e. perform b c h = (Inl e, h @ [(c, Raised e)])))
   \<and> (search b name h = (res_s, hist_s) \<longrightarrow>
         res_s = (case snd (last hist_s) of Raised e \<Rightarrow> Inl e | Returned r \<Rightarrow> Inr r)
       \<and> (\<forall>r. res_s = Inr r \<longrightarrow>
            fst (last hist_s) =
              Search_entity name
                (if length name \<le> 30 then Locators ''env.env_name''
                 else Common_locators ''select_filtered_entity'')))
   \<and> (delete b name really h = (res_d, hist_d) \<longrightarrow>
         hist_d = h @ [(Delete_entity name really (Locators ''env.env_name'')
                          (Locators ''env.delete'') (Given (Locators ''env.dropdown'')),
                        b h (Delete_entity name really (Locators ''env.env_name'')
                          (Locators ''env.delete'') (Given (Locators ''env.dropdown''))))]
       \<and> res_d = (case b h (Delete_entity name really (Locators ''env.env_name'')
                              (Locators ''env.delete'') (Given (Locators ''env.dropdown''))) of
                    Raised e \<Rightarrow> Inl e
                  | Returned r \<Rightarrow> Inr ()))
   \<and> (b h (Click (Locators ''env.new'')) = Returned ra \<longrightarrow>
       b (h @ [(Click (Locators ''env.new''), Returned ra)])
         (Wait_until_element (Locators ''env.name'')) = Returned None \<longrightarrow>
       create b name orgs org_select h = (res_c, hist_c) \<longrightarrow>
         calls_since h hist_c =
           [Click (Locators ''env.new''), Wait_until_element (Locators ''env.name'')]
           @ (if truthy orgs
              then Configure_entity orgs (FILTER ''env_org'') (Given (Tab_locators ''tab_org''))
                     Omitted (Given org_select)
                   # (case b (h @ [(Click (Locators ''env.new''), Returned ra),
                                   (Wait_until_element (Locators ''env.name''), Returned None)])
                             (Configure_entity orgs (FILTER ''env_org'')
                                (Given (Tab_locators ''tab_org'')) Omitted (Given org_select)) of
                        Raised e \<Rightarrow> []
                      | Returned r \<Rightarrow> [Click (Common_locators ''submit'')])
              else [Click (Common_locators ''submit'')])
       \<and> res_c = (case snd (last hist_c) of Raised e \<Rightarrow> Inl e | Returned r \<Rightarrow> Inr ()))
   \<and> (search b old_name h = (Inr (Some el), hs) \<longrightarrow>
       b hs (Element_click el) = Returned rb \<longrightarrow>
       b (hs @ [(Element_click el, Returned rb)])
         (Wait_until_element (Locators ''env.name'')) = Returned None \<longrightarrow>
       update b old_name orgs new_orgs new_name org_select h = (res_u, hist_u) \<longrightarrow>
         calls_since hs hist_u =
           [Element_click el, Wait_until_element (Locators ''env.name''),
            Configure_entity orgs (FILTER ''env_org'') (Given (Tab_locators ''tab_org''))
              (Given new_orgs) (Given org_select)]
           @ (case b (hs @ [(Element_click el, Returned rb),
                            (Wait_until_element (Locators ''env.name''), Returned None)])
                     (Configure_entity orgs (FILTER ''env_org'')
                        (Given (Tab_locators ''tab_org'')) (Given new_orgs) (Given org_select)) of
                Raised e \<Rightarrow> []
              | Returned r \<Rightarrow> [Click (Common_locators ''submit'')])
       \<and> res_u = (case snd (last hist_u) of Raised e \<Rightarrow> Inl e | Returned r \<Rightarrow> Inr ()))"
proof (intro conjI impI)
  show "(\<exists>x. perform b c h = (Inr (Some x), h @ [(c, Returned (Some x))]))
      \<or> perform b c h = (Inr None, h @ [(c, Returned None)])
      \<or> (\<exists>e. perform b c h = (Inl e, h @ [(c, Raised e)]))"
    by (rule perform_outcomes)
next
  assume s: "search b name h = (res_s, hist_s)"
  from search_hands_on [OF s]
  show "res_s = (case snd (last hist_s) of Raised e \<Rightarrow> Inl e | Returned r \<Rightarrow> Inr r)"
    and "\<forall>r. res_s = Inr r \<longrightarrow>
            fst (last hist_s) =
              Search_entity name
                (if length name \<le> 30 then Locators ''env.env_name''
                 else Common_locators ''select_filtered_entity'')"
    by blast+
next
  assume d: "delete b name really h = (res_d, hist_d)"
  from delete_hands_on [OF d]
  show "hist_d = h @ [(Delete_entity name really (Locators ''env.env_name'')
                          (Locators ''env.delete'') (Given (Locators ''env.dropdown'')),
                        b h (Delete_entity name really (Locators ''env.env_name'')
                          (Locators ''env.delete'') (Given (Locators ''env.dropdown''))))]"
    and "res_d = (case b h (Delete_entity name really (Locators ''env.env_name'')
                              (Locators ''env.delete'') (Given (Locators ''env.dropdown''))) of
                    Raised e \<Rightarrow> Inl e
                  | Returned r \<Rightarrow> Inr ())"
    by blast+
next
  assume a: "b h (Click (Locators ''env.new'')) = Returned ra"
    and w: "b (h @ [(Click (Locators ''env.new''), Returned ra)])
         (Wait_until_element (Locators ''env.name'')) = Returned None"
    and c: "create b name orgs org_select h = (res_c, hist_c)"
  from create_goes_on [OF a w c]
  show "calls_since h hist_c =
           [Click (Locators ''env.new''), Wait_until_element (Locators ''env.name'')]
           @ (if truthy orgs
              then Configure_entity orgs (FILTER ''env_org'') (Given (Tab_locators ''tab_org''))
                     Omitted (Given org_select)
                   # (case b (h @ [(Click (Locators ''env.new''), Returned ra),
                                   (Wait_until_element (Locators ''env.name''), Returned None)])
                             (Configure_entity orgs (FILTER ''env_org'')
                                (Given (Tab_locators ''tab_org'')) Omitted (Given org_select)) of
                        Raised e \<Rightarrow> []
                      | Returned r \<Rightarrow> [Click (Common_locators ''submit'')])
              else [Click (Common_locators ''submit'')])"
    and "res_c = (case snd (last hist_c) of Raised e \<Rightarrow> Inl e | Returned r \<Rightarrow> Inr ())"
    by blast+
next
  assume s: "search b old_name h = (Inr (Some el), hs)"
    and a: "b hs (Element_click el) = Returned rb"
    and w: "b (hs @ [(Element_click el, Returned rb)])
         (Wait_until_element (Locators ''env.name'')) = Returned None"
    and u: "update b old_name orgs new_orgs new_name org_select h = (res_u, hist_u)"
  from update_goes_on [OF s a w u]
  show "calls_since hs hist_u =
           [Element_click el, Wait_until_element (Locators ''env.name''),
            Configure_entity orgs (FILTER ''env_org'') (Given (Tab_locators ''tab_org''))
              (Given new_orgs) (Given org_select)]
           @ (case b (hs @ [(Element_click el, Returned rb),
                            (Wait_until_element (Locators ''env.name''), Returned None)])
                     (Configure_entity orgs (FILTER ''env_org'')
                        (Given (Tab_locators ''tab_org'')) (Given new_orgs) (Given org_select)) of
                Raised e \<Rightarrow> []
              | Returned r \<Rightarrow> [Click (Common_locators ''submit'')])"
    and "res_u = (case snd (last hist_u) of Raised e \<Rightarrow> Inl e | Returned r \<Rightarrow> Inr ())"
    by blast+
qed

text \<open>
  Both methods on a browser that never shows the name field, where every call returns,
  and \<open>create\<close> on a browser where \<^verbatim>\<open>configure_entity\<close> raises in addition.
\<close>

theorem missing_element_outcomes_witness:
  "perform browser_no_field (Wait_until_element (Locators ''env.name'')) [] =
     (Inr None, [(Wait_until_element (Locators ''env.name''), Returned None)])
   \<and> search browser_no_field ''old'' [] =
     (Inr (Some (Element 1)),
      [(Go_to_environments, Returned None),
       (Search_entity ''old'' (Locators ''env.env_name''), Returned (Some (Element 1)))])
   \<and> delete browser_no_field ''old'' True [] =
     (Inr (),
      [(Delete_entity ''old'' True (Locators ''env.env_name'') (Locators ''env.delete'')
          (Given (Locators ''env.dropdown'')), Returned None)])
   \<and> calls_since [] (snd (create browser_no_field ''old'' (Some [''org1'']) True [])) =
     [Click (Locators ''env.new''),
      Wait_until_element (Locators ''env.name''),
      Configure_entity (Some [''org1'']) (FILTER ''env_org'') (Given (Tab_locators ''tab_org''))
        Omitted (Given True),
      Click (Common_locators ''submit'')]
   \<and> fst (create browser_no_field ''old'' (Some [''org1'']) True []) = Inr ()
   \<and> calls_since
       [(Go_to_environments, Returned None),
        (Search_entity ''old'' (Locators ''env.env_name''), Returned (Some (Element 1)))]
       (snd (update browser_no_field ''old'' (Some [''org1'']) None (Some ''new'') True [])) =
     [Element_click (Element 1),
      Wait_until_element (Locators ''env.name''),
      Configure_entity (Some [''org1'']) (FILTER ''env_org'') (Given (Tab_locators ''tab_org''))
        (Given None) (Given True),
      Click (Common_locators ''submit'')]
   \<and> fst (update browser_no_field ''old'' (Some [''org1'']) None (Some ''new'') True []) = Inr ()
   \<and> calls_since [] (snd (create browser_configure_raises ''old'' (Some [''org1'']) True [])) =
     [Click (Locators ''env.new''),
      Wait_until_element (Locators ''env.name''),
      Configure_entity (Some [''org1'']) (FILTER ''env_org'') (Given (Tab_locators ''tab_org''))
        Omitted (Given True)]
   \<and> fst (create browser_configure_raises ''old'' (Some [''org1'']) True []) =
       Inl (Raised_below ''UINoSuchElementError'')"
proof -
  have d: "delete browser_no_field ''old'' True [] =
     (Inr (),
      [(Delete_entity ''old'' True (Locators ''env.env_name'') (Locators ''env.delete'')
          (Given (Locators ''env.dropdown'')), Returned None)])"
    by (simp add: delete_def run_simps)
  have a: "browser_no_field [] (Click (Locators ''env.new'')) = Returned None" by simp
  have w: "browser_no_field ([] @ [(Click (Locators ''env.new''), Returned None)])
             (Wait_until_element (Locators ''env.name'')) = Returned None" by simp
  have c: "create browser_no_field ''old'' (Some [''org1'']) True [] =
     (Inr (),
      [(Click (Locators ''env.new''), Returned None),
       (Wait_until_element (Locators ''env.name''), Returned None),
       (Configure_entity (Some [''org1'']) (FILTER ''env_org'') (Given (Tab_locators ''tab_org''))
          Omitted (Given True), Returned None),
       (Click (Common_locators ''submit''), Returned None)])"
    by (simp add: create_def run_simps)
  have u: "update browser_no_field ''old'' (Some [''org1'']) None (Some ''new'') True [] =
     (Inr (),
      [(Go_to_environments, Returned None),
       (Search_entity ''old'' (Locators ''env.env_name''), Returned (Some (Element 1))),
       (Element_click (Element 1), Returned None),
       (Wait_until_element (Locators ''env.name''), Returned None),
       (Configure_entity (Some [''org1'']) (FILTER ''env_org'') (Given (Tab_locators ''tab_org''))
          (Given None) (Given True), Returned None),
       (Click (Common_locators ''submit''), Returned None)])"
    by (simp add: update_located [OF search_browser_no_field] run_simps)
  have a': "browser_configure_raises [] (Click (Locators ''env.new'')) = Returned None" by simp
  have w': "browser_configure_raises ([] @ [(Click (Locators ''env.new''), Returned None)])
             (Wait_until_element (Locators ''env.name'')) = Returned None" by simp
  have c': "create browser_configure_raises ''old'' (Some [''org1'']) True [] =
     (Inl (Raised_below ''UINoSuchElementError''),
      [(Click (Locators ''env.new''), Returned None),
       (Wait_until_element (Locators ''env.name''), Returned None),
       (Configure_entity (Some [''org1'']) (FILTER ''env_org'') (Given (Tab_locators ''tab_org''))
          Omitted (Given True), Raised (Raised_below ''UINoSuchElementError''))])"
    by (simp add: create_def run_simps)
  from missing_element_outcomes
         [where b = browser_no_field and h = "[]"
            and c = "Wait_until_element (Locators ''env.name'')"
            and name = "''old''" and old_name = "''old''" and really = True
            and orgs = "Some [''org1'']" and org_select = True
            and new_orgs = None and new_name = "Some ''new''"
            and ra = None and rb = None and el = "Element 1"
            and hs = "[(Go_to_environments, Returned None),
                       (Search_entity ''old'' (Locators ''env.env_name''),
                        Returned (Some (Element 1)))]"
            and res_s = "Inr (Some (Element 1))"
            and hist_s = "[(Go_to_environments, Returned None),
                           (Search_entity ''old'' (Locators ''env.env_name''),
                            Returned (Some (Element 1)))]"
            and res_d = "Inr ()"
            and hist_d = "[(Delete_entity ''old'' True (Locators ''env.env_name'')
                             (Locators ''env.delete'') (Given (Locators ''env.dropdown'')),
                            Returned None)]"
            and res_c = "fst (create browser_no_field ''old'' (Some [''org1'']) True [])"
            and hist_c = "snd (create browser_no_field ''old'' (Some [''org1'']) True [])"
            and res_u = "fst (update browser_no_field ''old'' (Some [''org1'']) None
                                (Some ''new'') True [])"
            and hist_u = "snd (update browser_no_field ''old'' (Some [''org1'']) None
                                 (Some ''new'') True [])"]
    missing_element_outcomes
         [where b = browser_configure_raises and h = "[]"
            and name = "''old''" and orgs = "Some [''org1'']" and org_select = True
            and ra = None
            and res_c = "fst (create browser_configure_raises ''old'' (Some [''org1'']) True [])"
            and hist_c = "snd (create browser_configure_raises ''old'' (Some [''org1'']) True [])"]
    search_browser_no_field d a w a' w'
  show ?thesis
    by (simp add: c u c' perform_def)
qed

text \<open>
  Two runs where the method should have signalled not-found, had it treated the empty
  wait as a failure: the wait for the name field finds nothing, and \<open>create\<close> and
  \<open>update\<close> return normally, their last call being the click on submit.
\<close>

theorem create_field_absent_counterexample:
  "create browser_no_field ''abc'' None True [] =
     (Inr (),
      [(Click (Locators ''env.new''), Returned None),
       (Wait_until_element (Locators ''env.name''), Returned None),
       (Click (Common_locators ''submit''), Returned None)])
   \<and> update browser_no_field ''env1'' (Some [''org1'']) None (Some ''env2'') True [] =
     (Inr (),
      [(Go_to_environments, Returned None),
       (Search_entity ''env1'' (Locators ''env.env_name''), Returned (Some (Element 1))),
       (Element_click (Element 1), Returned None),
       (Wait_until_element (Locators ''env.name''), Returned None),
       (Configure_entity (Some [''org1'']) (FILTER ''env_org'') (Given (Tab_locators ''tab_org''))
          (Given None) (Given True), Returned None),
       (Click (Common_locators ''submit''), Returned None)])"
proof -
  have s: "search browser_no_field ''env1'' [] =
     (Inr (Some (Element 1)),
      [(Go_to_environments, Returned None),
       (Search_entity ''env1'' (Locators ''env.env_name''), Returned (Some (Element 1)))])"
    by (simp add: search_unfold perform_def)
  show ?thesis
    by (simp add: create_def update_located [OF s] run_simps)
qed

subsection \<open>The session around a block\<close>

text \<open>
  C6. Let the login of a session have returned. Whatever the block does, return or
  raise, the \<^verbatim>\<open>with\<close> statement logs out right after it: the history of the statement
  is the history of the block followed by the logout. When the logout returns, the
  outcome of the statement is the outcome of the block, so an exception of the block
  still propagates, and the browser holds no authenticated session afterwards.
\<close>

theorem session_logs_out_on_every_exit:
  assumes "b h Login = Returned v"
    and "block (h @ [(Login, Returned v)]) = (outcome, h2)"
  shows "snd (with_Session b block h) = h2 @ [(Logout, b h2 Logout)]
       \<and> (b h2 Logout = Returned u \<longrightarrow>
            fst (with_Session b block h) = outcome
          \<and> \<not> authenticated (snd (with_Session b block h)))"
  using assms
  by (auto simp add: with_Session_def session_enter_def session_exit_def run_simps
      authenticated_def split: response.splits)

text \<open>
  A block that raises at its first click, and a block that runs to its end: both are
  followed by the logout.
\<close>

theorem session_logs_out_on_every_exit_witness:
  "with_Session browser_click_raises (create browser_click_raises ''abc'' None True) [] =
     (Inl (Raised_below ''UINoSuchElementError''),
      [(Login, Returned None),
       (Click (Locators ''env.new''), Raised (Raised_below ''UINoSuchElementError'')),
       (Logout, Returned None)])
   \<and> \<not> authenticated
        (snd (with_Session browser_click_raises (create browser_click_raises ''abc'' None True) []))
   \<and> with_Session browser_no_field (create browser_no_field ''abc'' None True) [] =
     (Inr (),
      [(Login, Returned None),
       (Click (Locators ''env.new''), Returned None),
       (Wait_until_element (Locators ''env.name''), Returned None),
       (Click (Common_locators ''submit''), Returned None),
       (Logout, Returned None)])
   \<and> \<not> authenticated
        (snd (with_Session browser_no_field (create browser_no_field ''abc'' None True) []))"
proof -
  have l1: "browser_click_raises [] Login = Returned None" by simp
  have b1: "create browser_click_raises ''abc'' None True ([] @ [(Login, Returned None)]) =
     (Inl (Raised_below ''UINoSuchElementError''),
      [(Login, Returned None),
       (Click (Locators ''env.new''), Raised (Raised_below ''UINoSuchElementError''))])"
    by (simp add: create_def run_simps)
  have l2: "browser_no_field [] Login = Returned None" by simp
  have b2: "create browser_no_field ''abc'' None True ([] @ [(Login, Returned None)]) =
     (Inr (),
      [(Login, Returned None),
       (Click (Locators ''env.new''), Returned None),
       (Wait_until_element (Locators ''env.name''), Returned None),
       (Click (Common_locators ''submit''), Returned None)])"
    by (simp add: create_def run_simps)
  from session_logs_out_on_every_exit
         [where b = browser_click_raises and h = "[]" and v = None and u = None
            and block = "create browser_click_raises ''abc'' None True", OF l1 b1]
    session_logs_out_on_every_exit
         [where b = browser_no_field and h = "[]" and v = None and u = None
            and block = "create browser_no_field ''abc'' None True", OF l2 b2]
  show ?thesis
    by (simp add: prod_eq_iff authenticated_def)
qed

end
